theory Spec2Isabelle
  imports Complex_Main "HOL-Library.Word" "HOL-Library.Sublist" "HOL-Library.Multiset"
begin

text \<open>
  The article generator (class \<open>ArticleGenerator\<close>): for each thread it samples posts,
  asks a completion service for a headline and an article, has the sampled texts classified
  in chunks of 20, and collects one record per thread; the job checkpoints the records
  after each thread, resumes from the checkpoint, and commits the batch through a temporary
  file. The functions below follow the methods of the class, one by one.
\<close>

section \<open>JavaScript strings\<close>

text \<open>
  A JavaScript string is a sequence of 16-bit code units. The literals of the source
  are ASCII; \<open>js\<close> turns an Isabelle literal into the code units of the same text.
\<close>

type_synonym jschar = "16 word"
type_synonym jsstring = "jschar list"

definition js :: "string \<Rightarrow> jsstring" where
  "js s = map (\<lambda>c. of_nat (of_char c)) s"

text \<open>
  The character classes of ECMAScript regular expressions: \<open>.\<close> matches every code unit
  that is not a line terminator; \<open>\s\<close> (and \<open>String.prototype.trim\<close>) take white space
  and line terminators; \<open>\d\<close> takes the ASCII digits.
\<close>

definition isLineTerminator :: "jschar \<Rightarrow> bool" where
  "isLineTerminator c = (c = 0x0A \<or> c = 0x0D \<or> c = 0x2028 \<or> c = 0x2029)"

definition isWhiteSpace :: "jschar \<Rightarrow> bool" where
  "isWhiteSpace c =
     (c = 0x09 \<or> c = 0x0B \<or> c = 0x0C \<or> c = 0x20 \<or> c = 0xA0 \<or> c = 0x1680
      \<or> (0x2000 \<le> c \<and> c \<le> 0x200A) \<or> c = 0x202F \<or> c = 0x205F \<or> c = 0x3000
      \<or> c = 0xFEFF \<or> isLineTerminator c)"

definition isDigit :: "jschar \<Rightarrow> bool" where
  "isDigit c = (0x30 \<le> c \<and> c \<le> 0x39)"

text \<open>
  Case-insensitive matching (flag \<open>i\<close>, no flag \<open>u\<close>) compares canonicalised code units.
  The patterns of this program are ASCII, and ECMAScript's canonicalisation never maps a
  code unit above 127 to one below 128, so upper-casing the ASCII letters decides every
  comparison against them.
\<close>

definition canonicalize :: "jschar \<Rightarrow> jschar" where
  "canonicalize c = (if 0x61 \<le> c \<and> c \<le> 0x7A then c - 0x20 else c)"

definition trim :: "jsstring \<Rightarrow> jsstring" where
  "trim s = rev (dropWhile isWhiteSpace (rev (dropWhile isWhiteSpace s)))"

text \<open>\<open>s.replace(/\*\*/g, '')\<close>: every non-overlapping \<open>**\<close>, from the left, is dropped.\<close>

fun removeStars :: "jsstring \<Rightarrow> jsstring" where
  "removeStars (a # b # s) =
     (if a = 0x2A \<and> b = 0x2A then removeStars s else a # removeStars (b # s))"
| "removeStars s = s"

text \<open>\<open>xs.join(sep)\<close>.\<close>

fun join :: "jsstring \<Rightarrow> jsstring list \<Rightarrow> jsstring" where
  "join sep [] = []"
| "join sep [x] = x"
| "join sep (x # y # ys) = x @ sep @ join sep (y # ys)"

text \<open>
  A non-negative integer in a template literal is printed in decimal (every count of this
  program is far below \<open>10^21\<close>, where JavaScript switches to exponent notation).
\<close>

fun showNat :: "nat \<Rightarrow> jsstring" where
  "showNat n =
     (if n < 10 then [0x30 + of_nat n]
      else showNat (n div 10) @ [0x30 + of_nat (n mod 10)])"

declare showNat.simps [simp del]

text \<open>
  \<open>parseInt(ds, 10)\<close> on a non-empty string of digits. The value is read exactly; a
  JavaScript number holds it exactly below \<open>2^53\<close>.
\<close>

definition parseInt10 :: "jsstring \<Rightarrow> nat" where
  "parseInt10 ds = foldl (\<lambda>n c. 10 * n + unat (c - 0x30)) 0 ds"

section \<open>Response parsers\<close>

subsection \<open>\<open>/LABEL:\s*(.+?)(?:\n|$)/i\<close>\<close>

text \<open>
  The matcher is written as the backtracking search of the regular expression: the
  literal, then \<open>\s*\<close> greedily (longest first, giving back one code unit at a time),
  then the lazy group \<open>(.+?)\<close> (shortest first), then a line feed or the end of the input
  (there is no flag \<open>m\<close>). Each function returns what group 1 captured.
\<close>

fun matchLiteral :: "jsstring \<Rightarrow> jsstring \<Rightarrow> jsstring option" where
  "matchLiteral [] s = Some s"
| "matchLiteral (p # ps) [] = None"
| "matchLiteral (p # ps) (c # cs) =
     (if canonicalize c = canonicalize p then matchLiteral ps cs else None)"

fun lazyGroup :: "jsstring \<Rightarrow> jsstring \<Rightarrow> jsstring option" where
  "lazyGroup acc [] = Some acc"
| "lazyGroup acc (c # cs) =
     (if c = 0x0A then Some acc
      else if isLineTerminator c then None
      else lazyGroup (acc @ [c]) cs)"

definition groupThenEnd :: "jsstring \<Rightarrow> jsstring option" where
  "groupThenEnd s =
     (case s of [] \<Rightarrow> None
      | c # cs \<Rightarrow> if isLineTerminator c then None else lazyGroup [c] cs)"

fun greedySpaces :: "jsstring \<Rightarrow> jsstring option" where
  "greedySpaces [] = groupThenEnd []"
| "greedySpaces (c # cs) =
     (if isWhiteSpace c
      then (case greedySpaces cs of Some g \<Rightarrow> Some g | None \<Rightarrow> groupThenEnd (c # cs))
      else groupThenEnd (c # cs))"

definition matchLabelAt :: "jsstring \<Rightarrow> jsstring \<Rightarrow> jsstring option" where
  "matchLabelAt lbl s =
     (case matchLiteral lbl s of None \<Rightarrow> None | Some r \<Rightarrow> greedySpaces r)"

text \<open>\<open>String.prototype.match\<close> without flag \<open>g\<close>: the first start position that matches.\<close>

fun matchLabel :: "jsstring \<Rightarrow> jsstring \<Rightarrow> jsstring option" where
  "matchLabel lbl [] = matchLabelAt lbl []"
| "matchLabel lbl (c # cs) =
     (case matchLabelAt lbl (c # cs) of Some g \<Rightarrow> Some g | None \<Rightarrow> matchLabel lbl cs)"

definition parseArticleResponse :: "jsstring \<Rightarrow> jsstring \<times> jsstring" where
  "parseArticleResponse response =
     (let headlineMatch = matchLabel (js ''HEADLINE:'') response;
          articleMatch = matchLabel (js ''ARTICLE:'') response;
          headline = (case headlineMatch of Some g \<Rightarrow> trim g | None \<Rightarrow> js ''Untitled Thread'');
          article = (case articleMatch of Some g \<Rightarrow> trim g | None \<Rightarrow> js ''No content available'');
          headline = trim (removeStars headline);
          article = trim (removeStars article)
      in (headline, article))"

subsection \<open>\<open>/(\d+)\/(\d+)/\<close>\<close>

text \<open>
  Group 1 is greedy and gives back digits when what follows does not match; group 2 ends
  the pattern, so its longest run is the match.
\<close>

fun secondDigits :: "jsstring \<Rightarrow> jsstring \<Rightarrow> jsstring" where
  "secondDigits acc [] = acc"
| "secondDigits acc (c # cs) = (if isDigit c then secondDigits (acc @ [c]) cs else acc)"

definition slashThenDigits :: "jsstring \<Rightarrow> jsstring \<Rightarrow> (jsstring \<times> jsstring) option" where
  "slashThenDigits d1 s =
     (case s of
        x # y # r \<Rightarrow> if x = 0x2F \<and> isDigit y then Some (d1, secondDigits [y] r) else None
      | _ \<Rightarrow> None)"

fun firstDigits :: "jsstring \<Rightarrow> jsstring \<Rightarrow> (jsstring \<times> jsstring) option" where
  "firstDigits acc [] = slashThenDigits acc []"
| "firstDigits acc (c # cs) =
     (if isDigit c
      then (case firstDigits (acc @ [c]) cs of
              Some m \<Rightarrow> Some m
            | None \<Rightarrow> slashThenDigits acc (c # cs))
      else slashThenDigits acc (c # cs))"

definition matchCountAt :: "jsstring \<Rightarrow> (jsstring \<times> jsstring) option" where
  "matchCountAt s =
     (case s of [] \<Rightarrow> None | c # cs \<Rightarrow> if isDigit c then firstDigits [c] cs else None)"

fun matchCount :: "jsstring \<Rightarrow> (jsstring \<times> jsstring) option" where
  "matchCount [] = matchCountAt []"
| "matchCount (c # cs) =
     (case matchCountAt (c # cs) of Some m \<Rightarrow> Some m | None \<Rightarrow> matchCount cs)"

definition parseAntisemiticResponse :: "jsstring \<Rightarrow> nat \<times> nat" where
  "parseAntisemiticResponse response =
     (case matchCount response of
        None \<Rightarrow> (0, 1)
      | Some (x, y) \<Rightarrow> (parseInt10 x, parseInt10 y))"

section \<open>Data model\<close>

text \<open>
  The fields of \<open>Thread\<close> and \<open>Post\<close> that the generator reads. An optional field is an
  \<open>option\<close>.
\<close>

record post =
  post_no :: nat
  com :: "jsstring option"

record thread =
  no :: nat
  posts :: "post list option"

text \<open>
  A JavaScript number that is not a count: a finite value, an infinity or \<open>NaN\<close>.
  Arithmetic on finite values is exact here (rounding and the sign of zero are left out);
  the special values follow IEEE 754 as JavaScript does.
\<close>

datatype jsnum = Fin rat | PosInf | NegInf | NaN

fun jsAdd :: "jsnum \<Rightarrow> jsnum \<Rightarrow> jsnum" where
  "jsAdd (Fin a) (Fin b) = Fin (a + b)"
| "jsAdd NaN y = NaN"
| "jsAdd x NaN = NaN"
| "jsAdd PosInf NegInf = NaN"
| "jsAdd NegInf PosInf = NaN"
| "jsAdd PosInf y = PosInf"
| "jsAdd x PosInf = PosInf"
| "jsAdd NegInf y = NegInf"
| "jsAdd x NegInf = NegInf"

fun jsMul :: "jsnum \<Rightarrow> jsnum \<Rightarrow> jsnum" where
  "jsMul (Fin a) (Fin b) = Fin (a * b)"
| "jsMul NaN y = NaN"
| "jsMul x NaN = NaN"
| "jsMul PosInf (Fin b) = (if b = 0 then NaN else if 0 < b then PosInf else NegInf)"
| "jsMul NegInf (Fin b) = (if b = 0 then NaN else if 0 < b then NegInf else PosInf)"
| "jsMul (Fin a) PosInf = (if a = 0 then NaN else if 0 < a then PosInf else NegInf)"
| "jsMul (Fin a) NegInf = (if a = 0 then NaN else if 0 < a then NegInf else PosInf)"
| "jsMul PosInf PosInf = PosInf"
| "jsMul NegInf NegInf = PosInf"
| "jsMul PosInf NegInf = NegInf"
| "jsMul NegInf PosInf = NegInf"

fun jsDiv :: "jsnum \<Rightarrow> jsnum \<Rightarrow> jsnum" where
  "jsDiv (Fin a) (Fin b) =
     (if b = 0 then (if a = 0 then NaN else if 0 < a then PosInf else NegInf)
      else Fin (a / b))"
| "jsDiv NaN y = NaN"
| "jsDiv x NaN = NaN"
| "jsDiv (Fin a) y = Fin 0"
| "jsDiv PosInf (Fin b) = (if 0 \<le> b then PosInf else NegInf)"
| "jsDiv NegInf (Fin b) = (if 0 \<le> b then NegInf else PosInf)"
| "jsDiv x y = NaN"

definition num :: "nat \<Rightarrow> jsnum" where
  "num n = Fin (of_nat n)"

record antisemiticStats =
  analyzedComments :: nat
  antisemiticComments :: nat
  percentage :: jsnum

record metadata =
  totalPosts :: nat
  analyzedPosts :: nat
  generatedAt :: nat

record ArticleAnalysis =
  threadId :: nat
  headline :: jsstring
  article :: jsstring
  antisemiticStats :: antisemiticStats
  metadata :: metadata

record batchStats =
  totalThreads :: nat
  totalAnalyzedPosts :: nat
  averageAntisemiticPercentage :: jsnum
  batchGeneratedAt :: nat

record ArticleBatch =
  articles :: "ArticleAnalysis list"
  batchStats :: batchStats

section \<open>The environment\<close>

text \<open>
  What the generator does not control is an environment \<open>env\<close> of oracles over an external
  state \<open>'e\<close>: the completion service, the random source of the sampler, the clock and
  the outcome of every file-system call. An exception is a value of \<open>js_error\<close>.

  \<open>chat\<close> stands for \<open>client.chat(request)\<close> followed by the read of
  \<open>response.choices[0].message.content\<close>: \<open>Inl\<close> is a rejected call, a response
  without that path, or a content that is not a string (each one throws where the caller
  handles a rejected call); \<open>Inr\<close> is the content.
\<close>

datatype js_error = JsError jsstring

datatype role = System | User

record message =
  role :: role
  content :: jsstring

record request =
  model :: jsstring
  messages :: "message list"
  temperature :: rat

datatype fs_op =
    Mkdir jsstring
  | WriteFile jsstring
  | Rename jsstring jsstring
  | Unlink jsstring
  | ReadFile jsstring

text \<open>
  A file-system call completes or fails. \<open>FailsMidway\<close> is a \<open>writeFile\<close> that fails
  after the file was opened for writing: what it leaves is a truncated text, which is not
  JSON. For every other call it is a plain failure.
\<close>

datatype fs_outcome = Completes | Fails js_error | FailsMidway js_error

record 'e env =
  chat :: "request \<Rightarrow> 'e \<Rightarrow> (js_error + jsstring) \<times> 'e"
  random :: "nat \<Rightarrow> 'e \<Rightarrow> nat \<times> 'e"
  now :: "'e \<Rightarrow> nat \<times> 'e"
  fsOutcome :: "fs_op \<Rightarrow> 'e \<Rightarrow> fs_outcome \<times> 'e"

text \<open>
  The text of a file is kept as the value \<open>JSON.parse\<close> gives for it: what
  \<open>saveProgress\<close> writes, what \<open>saveOutput\<close> writes, or a text with no \<open>articles\<close>
  to read (not JSON, or JSON of another shape). Records are read back as they were written;
  the one value \<open>JSON.stringify\<close> does not keep is a percentage that is \<open>NaN\<close>, written
  as \<open>null\<close>, which only records with \<open>analyzedComments = 0\<close> have.
\<close>

datatype json_file =
    ProgressJson "ArticleAnalysis list" nat
  | ArticlesJson ArticleBatch nat
  | Unparsable

datatype level = LevelLog | LevelWarn | LevelError

text \<open>One constructor for each console call of the source, with the values it prints.\<close>

datatype console_entry =
    WarnBatchSizeMismatch nat nat
  | ErrorAnalyzingBatch nat js_error
  | LogGenerated jsstring jsstring
  | WarnIncompleteContent
  | LogThreadStats nat nat nat nat
  | WarnSaveProgressFailed js_error
  | ErrorSaveArticlesFailed js_error
  | LogArticlesSaved jsstring
  | LogResuming nat
  | ErrorThreadFailed nat js_error

fun levelOf :: "console_entry \<Rightarrow> level" where
  "levelOf (WarnBatchSizeMismatch e g) = LevelWarn"
| "levelOf (ErrorAnalyzingBatch k e) = LevelError"
| "levelOf (LogGenerated h a) = LevelLog"
| "levelOf WarnIncompleteContent = LevelWarn"
| "levelOf (LogThreadStats t v n c) = LevelLog"
| "levelOf (WarnSaveProgressFailed e) = LevelWarn"
| "levelOf (ErrorSaveArticlesFailed e) = LevelError"
| "levelOf (LogArticlesSaved p) = LevelLog"
| "levelOf (LogResuming n) = LevelLog"
| "levelOf (ErrorThreadFailed t e) = LevelError"

text \<open>
  The state a run works on: the external state, the files, the console, and the
  completion calls and the file-system calls made so far, each with its outcome.
\<close>

record 'e world =
  ext :: 'e
  files :: "jsstring \<Rightarrow> json_file option"
  console :: "console_entry list"
  requests :: "(request \<times> (js_error + jsstring)) list"
  fsCalls :: "(fs_op \<times> fs_outcome) list"

definition consoleAdd :: "console_entry list \<Rightarrow> 'e world \<Rightarrow> 'e world" where
  "consoleAdd es w = w\<lparr>console := console w @ es\<rparr>"

definition client_chat ::
  "'e env \<Rightarrow> request \<Rightarrow> 'e world \<Rightarrow> (js_error + jsstring) \<times> 'e world" where
  "client_chat env rq w =
     (let (r, e) = chat env rq (ext w)
      in (r, w\<lparr>ext := e, requests := requests w @ [(rq, r)]\<rparr>))"

definition Date_now :: "'e env \<Rightarrow> 'e world \<Rightarrow> nat \<times> 'e world" where
  "Date_now env w = (let (t, e) = now env (ext w) in (t, w\<lparr>ext := e\<rparr>))"

subsection \<open>File system\<close>

definition ENOENT :: js_error where
  "ENOENT = JsError (js ''ENOENT'')"

definition fsCall :: "'e env \<Rightarrow> fs_op \<Rightarrow> 'e world \<Rightarrow> fs_outcome \<times> 'e world" where
  "fsCall env op' w =
     (let (out, e) = fsOutcome env op' (ext w)
      in (out, w\<lparr>ext := e, fsCalls := fsCalls w @ [(op', out)]\<rparr>))"

definition fs_mkdir :: "'e env \<Rightarrow> jsstring \<Rightarrow> 'e world \<Rightarrow> (js_error + unit) \<times> 'e world" where
  "fs_mkdir env p w =
     (let (out, w1) = fsCall env (Mkdir p) w
      in case out of
           Completes \<Rightarrow> (Inr (), w1)
         | Fails e \<Rightarrow> (Inl e, w1)
         | FailsMidway e \<Rightarrow> (Inl e, w1))"

definition fs_writeFile ::
  "'e env \<Rightarrow> jsstring \<Rightarrow> json_file \<Rightarrow> 'e world \<Rightarrow> (js_error + unit) \<times> 'e world" where
  "fs_writeFile env p f w =
     (let (out, w1) = fsCall env (WriteFile p) w
      in case out of
           Completes \<Rightarrow> (Inr (), w1\<lparr>files := (files w1)(p \<mapsto> f)\<rparr>)
         | Fails e \<Rightarrow> (Inl e, w1)
         | FailsMidway e \<Rightarrow> (Inl e, w1\<lparr>files := (files w1)(p \<mapsto> Unparsable)\<rparr>))"

definition fs_rename ::
  "'e env \<Rightarrow> jsstring \<Rightarrow> jsstring \<Rightarrow> 'e world \<Rightarrow> (js_error + unit) \<times> 'e world" where
  "fs_rename env src dst w =
     (let (out, w1) = fsCall env (Rename src dst) w
      in case out of
           Completes \<Rightarrow>
             (case files w1 src of
                None \<Rightarrow> (Inl ENOENT, w1)
              | Some f \<Rightarrow> (Inr (), w1\<lparr>files := ((files w1)(src := None))(dst \<mapsto> f)\<rparr>))
         | Fails e \<Rightarrow> (Inl e, w1)
         | FailsMidway e \<Rightarrow> (Inl e, w1))"

definition fs_unlink :: "'e env \<Rightarrow> jsstring \<Rightarrow> 'e world \<Rightarrow> (js_error + unit) \<times> 'e world" where
  "fs_unlink env p w =
     (let (out, w1) = fsCall env (Unlink p) w
      in case out of
           Completes \<Rightarrow>
             (case files w1 p of
                None \<Rightarrow> (Inl ENOENT, w1)
              | Some f \<Rightarrow> (Inr (), w1\<lparr>files := (files w1)(p := None)\<rparr>))
         | Fails e \<Rightarrow> (Inl e, w1)
         | FailsMidway e \<Rightarrow> (Inl e, w1))"

definition fs_readFile :: "'e env \<Rightarrow> jsstring \<Rightarrow> 'e world \<Rightarrow> (js_error + json_file) \<times> 'e world" where
  "fs_readFile env p w =
     (let (out, w1) = fsCall env (ReadFile p) w
      in case out of
           Completes \<Rightarrow>
             (case files w1 p of None \<Rightarrow> (Inl ENOENT, w1) | Some f \<Rightarrow> (Inr f, w1))
         | Fails e \<Rightarrow> (Inl e, w1)
         | FailsMidway e \<Rightarrow> (Inl e, w1))"

definition existsSync :: "jsstring \<Rightarrow> 'e world \<Rightarrow> bool" where
  "existsSync p w = (files w p \<noteq> None)"

text \<open>\<open>path.dirname\<close> of a path with a directory part: the text before the last \<open>/\<close>.\<close>

definition dirname :: "jsstring \<Rightarrow> jsstring" where
  "dirname p = rev (drop 1 (dropWhile (\<lambda>c. c \<noteq> 0x2F) (rev p)))"

section \<open>The generator\<close>

record generator =
  analysisPercentage :: rat
  genTemperature :: rat
  progressFile :: jsstring
  outputFile :: jsstring

text \<open>
  The constructor: the configured percentage over the default 30, the temperature of the
  environment variable over the default 0.7, and the two paths under \<open>paths.dataDir\<close>
  (a constant of a module that is not part of the sources; an absolute path here).
\<close>

definition DEFAULT_CONFIG_analysisPercentage :: rat where
  "DEFAULT_CONFIG_analysisPercentage = 30"

definition ANTISEMITIC_BATCH_SIZE :: nat where
  "ANTISEMITIC_BATCH_SIZE = 20"

definition ArticleGenerator :: "rat option \<Rightarrow> rat option \<Rightarrow> jsstring \<Rightarrow> generator" where
  "ArticleGenerator config DEEPSEEK_TEMPERATURE dataDir =
     \<lparr> analysisPercentage =
         (case config of None \<Rightarrow> DEFAULT_CONFIG_analysisPercentage | Some p \<Rightarrow> p),
       genTemperature = (case DEEPSEEK_TEMPERATURE of None \<Rightarrow> 7 / 10 | Some t \<Rightarrow> t),
       progressFile = dataDir @ js ''/analysis/progress.json'',
       outputFile = dataDir @ js ''/analysis/articles.json'' \<rparr>"

subsection \<open>Sampler\<close>

text \<open>
  Modelled from the spec: \<open>randomSample\<close> of \<open>utils/array\<close>, which is not part of the
  sources. The spec has it return a random subset of the requested size, drawn without
  replacement: each draw takes one element, at an index given by the random source, out of
  those not drawn yet.
\<close>

fun randomSample :: "'e env \<Rightarrow> 'a list \<Rightarrow> nat \<Rightarrow> 'e \<Rightarrow> 'a list \<times> 'e" where
  "randomSample env xs 0 e = ([], e)"
| "randomSample env xs (Suc n) e =
     (if xs = [] then ([], e)
      else (let (r, e1) = random env (length xs) e;
                i = r mod length xs;
                (ys, e2) = randomSample env (take i xs @ drop (Suc i) xs) n e1
            in (xs ! i # ys, e2)))"

definition getPostsToAnalyze ::
  "'e env \<Rightarrow> generator \<Rightarrow> thread \<Rightarrow> 'e world \<Rightarrow> post list \<times> 'e world" where
  "getPostsToAnalyze env gen t w =
     (case posts t of
        None \<Rightarrow> ([], w)
      | Some ps \<Rightarrow>
          if length ps = 0 then ([], w)
          else (let totalPosts' = length ps;
                    postsToAnalyze =
                      nat \<lceil>(of_nat totalPosts' * analysisPercentage gen) / 100\<rceil>;
                    (sample, e) = randomSample env ps postsToAnalyze (ext w)
                in (sample, w\<lparr>ext := e\<rparr>)))"

subsection \<open>Prompts\<close>

definition antisemiticSystemContent :: jsstring where
  \<open>antisemiticSystemContent = js (
     ''You are an anti-zionist yet objective content analyzer focused on identifying antisemitic content.\<newline>'' @
     ''                     Use established academic definitions and criteria.\<newline>'' @
     ''                     Analyze factually without personal bias.\<newline>'' @
     ''                     You must analyze EVERY comment provided.\<newline>'' @
     ''                     Respond only with numbers in this format: [count of antisemitic comments]/[total comments analyzed]'')\<close>

definition antisemiticUserContent :: "nat \<Rightarrow> jsstring \<Rightarrow> jsstring" where
  \<open>antisemiticUserContent n batchContent =
     js ''Analyze these '' @ showNat n @
     js ('' comments for antisemitic content. Count how many contain such content.\<newline>'' @
         ''                     You MUST analyze all '') @ showNat n @
     js ('' comments.\<newline>'' @
         ''                     Respond only with the count in format: X/Y where X is antisemitic comments and Y is total analyzed.\<newline>'' @
         ''                     \<newline>'' @
         ''                     Comments to analyze:\<newline>'' @
         ''\<newline>'') @ batchContent\<close>

definition articleSystemContent :: jsstring where
  \<open>articleSystemContent = js (
     ''You are an objective academic researcher documenting authentic online discourse.\<newline>'' @
     ''                   Your role is to record and analyze content, political views, and controversial opinions exactly as they appear.\<newline>'' @
     ''                   Your job isto discern if any impactful events have occured in the world.\<newline>'' @
     ''                   You must preserve all language, slurs, and rhetoric verbatim for research accuracy.\<newline>'' @
     ''                   This is a scholarly documentation project - do not sanitize or modify any content.\<newline>'' @
     ''                   Your goal is to create complete, coherent summaries that capture the key points.\<newline>'' @
     ''                   You must write articles between 100 to 150 words in length.\<newline>'' @
     ''                   Present information neutrally and professionally.\<newline>'' @
     ''                   Ensure headlines are clear and concise (ideally 3-6 words).'')\<close>

definition articleUserContent :: "jsstring \<Rightarrow> jsstring" where
  \<open>articleUserContent postsContent = js (
     ''You are an expert journalist summarizing online discussions.\<newline>'' @
     ''Your task is to analyze a thread of posts and generate:\<newline>'' @
     ''1. A clear, concise headline of 4 to 6 words.\<newline>'' @
     ''2. A detailed article summarizing the key points and themes (100 - 150 words).\<newline>'' @
     ''\<newline>'' @
     ''Focus on identifying world events thought patterns, political views, and controversial opinions, and other topics and events.\<newline>'' @
     ''Maintain a neutral, academic tone.\<newline>'' @
     ''Always directly quote comments verbatim in quotation marks.\<newline>'' @
     ''Be sure to include lots of quotes.\<newline>'' @
     ''Never contextualize the content with words like "online" or "forum". Never mention the discussion itself, only what was discussed.\<newline>'' @
     ''Be sure that your headline and article are within the word limits.\<newline>'' @
     ''                                                         \<newline>'' @
     '' Thread content:\<newline>'') @ postsContent\<close>

text \<open>
  The four texts are long and no property depends on their letters: concrete runs keep them
  folded.
\<close>

declare antisemiticSystemContent_def [code del]
declare antisemiticUserContent_def [code del]
declare articleSystemContent_def [code del]
declare articleUserContent_def [code del]

definition antisemiticPrompt :: "jsstring list \<Rightarrow> request" where
  "antisemiticPrompt batchPosts =
     \<lparr> model = js ''deepseek-chat'',
       messages =
         [\<lparr> role = System, content = antisemiticSystemContent \<rparr>,
          \<lparr> role = User,
            content = antisemiticUserContent (length batchPosts)
                        (join (js ''\<newline>\<newline>'') batchPosts) \<rparr>],
       temperature = 2 / 10 \<rparr>"

definition articlePrompt :: "generator \<Rightarrow> jsstring \<Rightarrow> request" where
  "articlePrompt gen postsContent =
     \<lparr> model = js ''deepseek-chat'',
       messages =
         [\<lparr> role = System, content = articleSystemContent \<rparr>,
          \<lparr> role = User, content = articleUserContent postsContent \<rparr>],
       temperature = genTemperature gen \<rparr>"

subsection \<open>\<open>analyzeAntisemiticContent\<close>\<close>

text \<open>
  \<open>analyzeBatch\<close> is the body of the loop for the batch that starts at index \<open>i\<close>;
  \<open>totals\<close> is \<open>(totalAntisemiticCount, totalAnalyzed)\<close>.
\<close>

definition analyzeBatch ::
  "'e env \<Rightarrow> jsstring list \<Rightarrow> nat \<Rightarrow> nat \<times> nat \<Rightarrow> 'e world \<Rightarrow> (nat \<times> nat) \<times> 'e world" where
  "analyzeBatch env posts' i totals w =
     (let batchPosts = take ANTISEMITIC_BATCH_SIZE (drop i posts');
          (r, w1) = client_chat env (antisemiticPrompt batchPosts) w
      in case r of
           Inr response \<Rightarrow>
             (let (batchAntisemitic, batchAnalyzed) = parseAntisemiticResponse response;
                  (totalAntisemiticCount, totalAnalyzed) = totals
              in if batchAnalyzed \<noteq> length batchPosts
                 then ((totalAntisemiticCount + batchAntisemitic,
                        totalAnalyzed + length batchPosts),
                       consoleAdd [WarnBatchSizeMismatch (length batchPosts) batchAnalyzed] w1)
                 else ((totalAntisemiticCount + batchAntisemitic,
                        totalAnalyzed + batchAnalyzed), w1))
         | Inl error \<Rightarrow>
             (totals,
              consoleAdd [ErrorAnalyzingBatch (i div ANTISEMITIC_BATCH_SIZE + 1) error] w1))"

function analyzeLoop ::
  "'e env \<Rightarrow> jsstring list \<Rightarrow> nat \<Rightarrow> nat \<times> nat \<Rightarrow> 'e world \<Rightarrow> (nat \<times> nat) \<times> 'e world" where
  "analyzeLoop env posts' i totals w =
     (if i < length posts'
      then (case analyzeBatch env posts' i totals w of
              (totals', w') \<Rightarrow> analyzeLoop env posts' (i + ANTISEMITIC_BATCH_SIZE) totals' w')
      else (totals, w))"
  by pat_completeness auto
termination
  by (relation "measure (\<lambda>(env, posts', i, totals, w). length posts' - i)")
     (auto simp: ANTISEMITIC_BATCH_SIZE_def)

declare analyzeLoop.simps [simp del]

definition analyzeAntisemiticContent ::
  "'e env \<Rightarrow> jsstring list \<Rightarrow> 'e world \<Rightarrow> (nat \<times> nat) \<times> 'e world" where
  "analyzeAntisemiticContent env posts' w = analyzeLoop env posts' 0 (0, 0) w"

subsection \<open>\<open>analyzeThread\<close>\<close>

definition parseArticleResponse_console :: "jsstring \<times> jsstring \<Rightarrow> console_entry list" where
  "parseArticleResponse_console ha =
     LogGenerated (fst ha) (snd ha) #
     (if fst ha = js ''Untitled Thread'' \<or> snd ha = js ''No content available''
      then [WarnIncompleteContent] else [])"

definition validTexts :: "post list \<Rightarrow> jsstring list" where
  "validTexts ps = filter (\<lambda>c. c \<noteq> []) (List.map_filter com ps)"

definition analyzeThread ::
  "'e env \<Rightarrow> generator \<Rightarrow> thread \<Rightarrow> 'e world \<Rightarrow> (js_error + ArticleAnalysis) \<times> 'e world" where
  "analyzeThread env gen t w =
     (let (postsToAnalyze, w1) = getPostsToAnalyze env gen t w;
          totalPosts' = (case posts t of None \<Rightarrow> 0 | Some ps \<Rightarrow> length ps);
          validPosts = validTexts postsToAnalyze;
          postsContent = join (js ''\<newline>\<newline>'') validPosts;
          (r, w2) = client_chat env (articlePrompt gen postsContent) w1
      in case r of
           Inl error \<Rightarrow> (Inl error, w2)
         | Inr response \<Rightarrow>
             (let ha = parseArticleResponse response;
                  w3 = consoleAdd (parseArticleResponse_console ha) w2;
                  (counts, w4) = analyzeAntisemiticContent env validPosts w3;
                  antisemiticCount = fst counts;
                  totalAnalyzed = snd counts;
                  w5 = consoleAdd
                         [LogThreadStats (no t) (length validPosts) totalAnalyzed antisemiticCount]
                         w4;
                  (time, w6) = Date_now env w5
              in (Inr \<lparr> threadId = no t,
                        headline = fst ha,
                        article = snd ha,
                        antisemiticStats =
                          \<lparr> analyzedComments = totalAnalyzed,
                            antisemiticComments = antisemiticCount,
                            percentage =
                              jsMul (jsDiv (num antisemiticCount) (num totalAnalyzed)) (num 100) \<rparr>,
                        metadata =
                          \<lparr> totalPosts = totalPosts',
                            analyzedPosts = length postsToAnalyze,
                            generatedAt = time \<rparr> \<rparr>,
                  w6)))"

subsection \<open>Checkpoint and output store\<close>

text \<open>
  \<open>saveProgress\<close> catches every failure and logs it; \<open>loadProgress\<close> answers the empty
  list on every failure, and \<open>data.articles || []\<close> otherwise.
\<close>

definition saveProgress ::
  "'e env \<Rightarrow> generator \<Rightarrow> ArticleAnalysis list \<Rightarrow> 'e world \<Rightarrow> 'e world" where
  "saveProgress env gen arts w =
     (let (r1, w1) = fs_mkdir env (dirname (progressFile gen)) w
      in case r1 of
           Inl error \<Rightarrow> consoleAdd [WarnSaveProgressFailed error] w1
         | Inr u \<Rightarrow>
             (let (time, w2) = Date_now env w1;
                  (r2, w3) = fs_writeFile env (progressFile gen) (ProgressJson arts time) w2
              in case r2 of
                   Inl error \<Rightarrow> consoleAdd [WarnSaveProgressFailed error] w3
                 | Inr u \<Rightarrow> w3))"

definition loadProgress ::
  "'e env \<Rightarrow> generator \<Rightarrow> 'e world \<Rightarrow> ArticleAnalysis list \<times> 'e world" where
  "loadProgress env gen w =
     (let (r, w1) = fs_readFile env (progressFile gen) w
      in case r of
           Inl error \<Rightarrow> ([], w1)
         | Inr data \<Rightarrow>
             (case data of
                ProgressJson arts time \<Rightarrow> (arts, w1)
              | ArticlesJson batch time \<Rightarrow> (articles batch, w1)
              | Unparsable \<Rightarrow> ([], w1)))"

text \<open>The \<open>try\<close> block of \<open>saveOutput\<close>, then the function with its \<open>catch\<close>.\<close>

definition saveOutput_try ::
  "'e env \<Rightarrow> generator \<Rightarrow> jsstring \<Rightarrow> ArticleBatch \<Rightarrow> 'e world \<Rightarrow> (js_error + unit) \<times> 'e world" where
  "saveOutput_try env gen tempFile batch w =
     (let (r1, w1) = fs_mkdir env (dirname (outputFile gen)) w
      in case r1 of
           Inl error \<Rightarrow> (Inl error, w1)
         | Inr u \<Rightarrow>
             (let (time, w2) = Date_now env w1;
                  (r2, w3) = fs_writeFile env tempFile (ArticlesJson batch time) w2
              in case r2 of
                   Inl error \<Rightarrow> (Inl error, w3)
                 | Inr u \<Rightarrow>
                     (let (r3, w4) = fs_rename env tempFile (outputFile gen) w3
                      in case r3 of
                           Inl error \<Rightarrow> (Inl error, w4)
                         | Inr u \<Rightarrow>
                             (Inr (), consoleAdd [LogArticlesSaved (outputFile gen)] w4))))"

definition saveOutput ::
  "'e env \<Rightarrow> generator \<Rightarrow> ArticleBatch \<Rightarrow> 'e world \<Rightarrow> (js_error + unit) \<times> 'e world" where
  "saveOutput env gen batch w =
     (let tempFile = outputFile gen @ js ''.tmp'';
          (r, w1) = saveOutput_try env gen tempFile batch w
      in case r of
           Inr u \<Rightarrow> (Inr (), w1)
         | Inl error \<Rightarrow>
             (let w2 = consoleAdd [ErrorSaveArticlesFailed error] w1;
                  w3 = (if existsSync tempFile w2
                        then snd (fs_unlink env tempFile w2)
                        else w2)
              in (Inl error, w3)))"

subsection \<open>\<open>generateArticles\<close>\<close>

text \<open>
  A progress callback is a function of the external state; \<open>Some error\<close> is a callback
  that throws. \<open>acc\<close> is \<open>(articles, totalAnalyzedPosts, totalAntisemiticPercentage)\<close>;
  \<open>processThreads\<close> is the loop over \<open>remainingThreads\<close>, whose \<open>catch\<close> takes every
  failure of the body, the callback's too.
\<close>

type_synonym 'e callback = "jsstring \<Rightarrow> 'e \<Rightarrow> js_error option \<times> 'e"

type_synonym progress = "ArticleAnalysis list \<times> nat \<times> jsnum"

definition callOnProgress :: "'e callback option \<Rightarrow> thread \<Rightarrow> 'e world \<Rightarrow> 'e world" where
  "callOnProgress onProgress t w =
     (case onProgress of
        None \<Rightarrow> w
      | Some f \<Rightarrow>
          (let (r, e) = f (showNat (no t)) (ext w)
           in case r of
                None \<Rightarrow> w\<lparr>ext := e\<rparr>
              | Some error \<Rightarrow> consoleAdd [ErrorThreadFailed (no t) error] (w\<lparr>ext := e\<rparr>)))"

fun processThreads ::
  "'e env \<Rightarrow> generator \<Rightarrow> 'e callback option \<Rightarrow> thread list \<Rightarrow> progress \<Rightarrow> 'e world
   \<Rightarrow> progress \<times> 'e world" where
  "processThreads env gen onProgress [] acc w = (acc, w)"
| "processThreads env gen onProgress (t # ts) acc w =
     (case analyzeThread env gen t w of
        (Inl error, w1) \<Rightarrow>
          processThreads env gen onProgress ts acc
            (consoleAdd [ErrorThreadFailed (no t) error] w1)
      | (Inr analysis, w1) \<Rightarrow>
          (let articles' = fst acc @ [analysis];
               totalAnalyzedPosts' = fst (snd acc) + analyzedPosts (metadata analysis);
               totalAntisemiticPercentage =
                 (if analyzedComments (antisemiticStats analysis) > 0
                  then jsAdd (snd (snd acc)) (percentage (antisemiticStats analysis))
                  else snd (snd acc));
               w2 = saveProgress env gen articles' w1;
               w3 = callOnProgress onProgress t w2
           in processThreads env gen onProgress ts
                (articles', totalAnalyzedPosts', totalAntisemiticPercentage) w3))"

definition generateArticles ::
  "'e env \<Rightarrow> generator \<Rightarrow> thread list \<Rightarrow> 'e callback option \<Rightarrow> 'e world
   \<Rightarrow> (js_error + ArticleBatch) \<times> 'e world" where
  "generateArticles env gen threads onProgress w =
     (let (existingArticles, w1) = loadProgress env gen w;
          completedThreadIds = set (map threadId existingArticles);
          remainingThreads = filter (\<lambda>t. no t \<notin> completedThreadIds) threads;
          w2 = (if length existingArticles > 0
                then consoleAdd [LogResuming (length existingArticles)] w1
                else w1);
          totalAnalyzedPosts0 =
            foldl (\<lambda>sum a. sum + analyzedPosts (metadata a)) 0 existingArticles;
          totalAntisemiticPercentage0 =
            foldl (\<lambda>sum a. if analyzedComments (antisemiticStats a) > 0
                            then jsAdd sum (percentage (antisemiticStats a)) else sum)
                  (Fin 0) existingArticles;
          (acc, w3) = processThreads env gen onProgress remainingThreads
                        (existingArticles, totalAnalyzedPosts0, totalAntisemiticPercentage0) w2;
          articles' = fst acc;
          threadsWithAnalysis =
            length (filter (\<lambda>a. analyzedComments (antisemiticStats a) > 0) articles');
          averagePercentage =
            (if threadsWithAnalysis > 0
             then jsDiv (snd (snd acc)) (num threadsWithAnalysis)
             else Fin 0);
          w4 = snd (fs_unlink env (progressFile gen) w3);
          (time, w5) = Date_now env w4;
          batch = \<lparr> articles = articles',
                    batchStats =
                      \<lparr> totalThreads = length articles',
                        totalAnalyzedPosts = fst (snd acc),
                        averageAntisemiticPercentage = averagePercentage,
                        batchGeneratedAt = time \<rparr> \<rparr>;
          (r, w6) = saveOutput env gen batch w5
      in case r of
           Inl error \<Rightarrow> (Inl error, w6)
         | Inr u \<Rightarrow> (Inr batch, w6))"

section \<open>Notions used in the statements\<close>

subsection \<open>Chunks and outcomes of the classification loop\<close>

text \<open>
  \<open>batches\<close> cuts a list into consecutive pieces of \<open>ANTISEMITIC_BATCH_SIZE\<close> elements, the
  last one shorter. A completion call \<open>succeeded\<close> when it gave a content; \<open>analyzedOf\<close>
  and \<open>flaggedOf\<close> are what a chunk with its outcome adds to the two totals.
\<close>

function batches :: "'a list \<Rightarrow> 'a list list" where
  "batches xs =
     (if xs = [] then []
      else take ANTISEMITIC_BATCH_SIZE xs # batches (drop ANTISEMITIC_BATCH_SIZE xs))"
  by pat_completeness auto
termination
  by (relation "measure length") (auto simp: ANTISEMITIC_BATCH_SIZE_def)

declare batches.simps [simp del]

definition analyzedOf :: "'a list \<times> (js_error + jsstring) \<Rightarrow> nat" where
  "analyzedOf bo = (case snd bo of Inl e \<Rightarrow> 0 | Inr c \<Rightarrow> length (fst bo))"

definition flaggedOf :: "(js_error + jsstring) \<Rightarrow> nat" where
  "flaggedOf out = (case out of Inl e \<Rightarrow> 0 | Inr c \<Rightarrow> fst (parseAntisemiticResponse c))"

definition succeeded :: "(js_error + 'a) \<Rightarrow> bool" where
  "succeeded out = (case out of Inl e \<Rightarrow> False | Inr r \<Rightarrow> True)"

subsection \<open>Count patterns\<close>


subsection \<open>Stub environments\<close>

text \<open>
  A stateless environment for concrete runs: the completion service answers by a function
  of the request, every draw of the random source is 0, the clock stands at 0, and the
  outcome of a file-system call is a function of the call.
\<close>

definition stubEnv :: "(request \<Rightarrow> js_error + jsstring) \<Rightarrow> (fs_op \<Rightarrow> fs_outcome) \<Rightarrow> unit env" where
  "stubEnv reply outcome =
     \<lparr> chat = (\<lambda>rq e. (reply rq, e)),
       random = (\<lambda>n e. (0, e)),
       now = (\<lambda>e. (0, e)),
       fsOutcome = (\<lambda>op' e. (outcome op', e)) \<rparr>"

definition emptyWorld :: "unit world" where
  "emptyWorld =
     \<lparr> ext = (), files = (\<lambda>p. None), console = [], requests = [], fsCalls = [] \<rparr>"

text \<open>
  File systems that refuse the rename of the commit, and one that also refuses to unlink (a
  file that another process holds open, or a directory that has become read-only).
\<close>

definition renameFails :: "fs_op \<Rightarrow> fs_outcome" where
  "renameFails c = (case c of Rename s d \<Rightarrow> Fails (JsError (js ''EPERM'')) | _ \<Rightarrow> Completes)"

definition tempLocked :: "fs_op \<Rightarrow> fs_outcome" where
  "tempLocked c =
     (case c of
        Rename s d \<Rightarrow> Fails (JsError (js ''EPERM''))
      | Unlink p \<Rightarrow> Fails (JsError (js ''EPERM''))
      | _ \<Rightarrow> Completes)"

definition emptyBatch :: ArticleBatch where
  "emptyBatch =
     \<lparr> articles = [],
       batchStats = \<lparr> totalThreads = 0, totalAnalyzedPosts = 0,
                      averageAntisemiticPercentage = Fin 0, batchGeneratedAt = 0 \<rparr> \<rparr>"

subsection \<open>The steps of the job runner\<close>

text \<open>
  Names for the values \<open>generateArticles\<close> computes on its way: the accumulators it starts
  from, the threads it keeps, the world after the resume message, and the batch it builds
  from the accumulators at the end.
\<close>

definition initialProgress :: "ArticleAnalysis list \<Rightarrow> progress" where
  "initialProgress existing =
     (existing,
      foldl (\<lambda>sum a. sum + analyzedPosts (metadata a)) 0 existing,
      foldl (\<lambda>sum a. if analyzedComments (antisemiticStats a) > 0
                      then jsAdd sum (percentage (antisemiticStats a)) else sum)
            (Fin 0) existing)"

definition remainingThreads :: "ArticleAnalysis list \<Rightarrow> thread list \<Rightarrow> thread list" where
  "remainingThreads existing threads =
     filter (\<lambda>t. no t \<notin> set (map threadId existing)) threads"

definition resumed :: "ArticleAnalysis list \<Rightarrow> 'e world \<Rightarrow> 'e world" where
  "resumed existing w =
     (if length existing > 0 then consoleAdd [LogResuming (length existing)] w else w)"

definition batchOf :: "progress \<Rightarrow> nat \<Rightarrow> ArticleBatch" where
  "batchOf acc time =
     \<lparr> articles = fst acc,
       batchStats =
         \<lparr> totalThreads = length (fst acc),
           totalAnalyzedPosts = fst (snd acc),
           averageAntisemiticPercentage =
             (if length (filter (\<lambda>a. analyzedComments (antisemiticStats a) > 0) (fst acc)) > 0
              then jsDiv (snd (snd acc))
                     (num (length (filter (\<lambda>a. analyzedComments (antisemiticStats a) > 0)
                                     (fst acc))))
              else Fin 0),
           batchGeneratedAt = time \<rparr> \<rparr>"

subsection \<open>The average of a batch\<close>

text \<open>
  The spec's average: the arithmetic mean of the percentages of the records with
  \<open>analyzedComments > 0\<close>, and 0 when there is none. The sum is taken in the order of the
  records. \<open>totalOf\<close> is that sum.
\<close>

definition meanPercentage :: "ArticleAnalysis list \<Rightarrow> jsnum" where
  "meanPercentage records =
     (let ps = map (\<lambda>a. percentage (antisemiticStats a))
                 (filter (\<lambda>a. analyzedComments (antisemiticStats a) > 0) records)
      in if ps = [] then Fin 0 else jsDiv (foldl jsAdd (Fin 0) ps) (num (length ps)))"

definition totalOf :: "ArticleAnalysis list \<Rightarrow> jsnum" where
  "totalOf records =
     foldl jsAdd (Fin 0) (map (\<lambda>a. percentage (antisemiticStats a))
                            (filter (\<lambda>a. analyzedComments (antisemiticStats a) > 0) records))"

subsection \<open>Deterministic environments\<close>




subsection \<open>Sample inputs\<close>

text \<open>
  A reply that carries both labels and a count; the generator with its default
  configuration; a thread whose only post has no text, and a thread of two posts, one with
  text.
\<close>

definition labelledReply :: "request \<Rightarrow> js_error + jsstring" where
  "labelledReply rq = Inr (js ''HEADLINE: News\<newline>ARTICLE: Text 1/1'')"

definition defaultGenerator :: generator where
  "defaultGenerator = ArticleGenerator None None (js ''/data'')"


definition smallThread :: thread where
  "smallThread =
     \<lparr> no = 7,
       posts = Some [\<lparr> post_no = 8, com = Some (js ''a'') \<rparr>, \<lparr> post_no = 9, com = None \<rparr>] \<rparr>"

text \<open>
  The record \<open>smallThread\<close> gets from this reply, an empty batch, and a world whose
  checkpoint holds that record.
\<close>

definition smallRecord :: ArticleAnalysis where
  "smallRecord =
     \<lparr> threadId = 7, headline = js ''News'', article = js ''Text 1/1'',
       antisemiticStats =
         \<lparr> analyzedComments = 1, antisemiticComments = 1, percentage = Fin 100 \<rparr>,
       metadata = \<lparr> totalPosts = 2, analyzedPosts = 1, generatedAt = 0 \<rparr> \<rparr>"

definition checkpointWorld :: "unit world" where
  "checkpointWorld =
     emptyWorld\<lparr>files := (\<lambda>p. None)(progressFile defaultGenerator \<mapsto> ProgressJson [smallRecord] 0)\<rparr>"

text \<open>
  The record \<open>textlessThread\<close> gets, and a world whose checkpoint holds a record with one
  analyzed comment and a record with none.
\<close>

definition textlessRecord :: ArticleAnalysis where
  "textlessRecord =
     \<lparr> threadId = 7, headline = js ''News'', article = js ''Text 1/1'',
       antisemiticStats =
         \<lparr> analyzedComments = 0, antisemiticComments = 0, percentage = NaN \<rparr>,
       metadata = \<lparr> totalPosts = 1, analyzedPosts = 1, generatedAt = 0 \<rparr> \<rparr>"

definition twoRecordWorld :: "unit world" where
  "twoRecordWorld =
     emptyWorld\<lparr>files := (\<lambda>p. None)(progressFile defaultGenerator \<mapsto>
                  ProgressJson [smallRecord, textlessRecord\<lparr>threadId := 8\<rparr>] 0)\<rparr>"







section \<open>The response parsers\<close>

lemma slash_no_digit [simp]: "\<not> isDigit 0x2F"
  by (simp add: isDigit_def)























lemma parseInt10_snoc: "parseInt10 (ds @ [c]) = 10 * parseInt10 ds + unat (c - 0x30)"
  by (simp add: parseInt10_def)

lemma digit_value: "d < 10 \<Longrightarrow> unat (of_nat d :: 16 word) = d"
  by (simp add: unat_of_nat take_bit_nat_eq_self)

lemma parseInt10_showNat: "parseInt10 (showNat n) = n"
proof (induction n rule: showNat.induct)
  case (1 n)
  show ?case
  proof (cases "n < 10")
    case True
    then show ?thesis
      by (subst showNat.simps) (simp add: parseInt10_def digit_value)
  next
    case False
    have "parseInt10 (showNat n) =
        10 * parseInt10 (showNat (n div 10)) + unat (of_nat (n mod 10) :: 16 word)"
      using False by (subst showNat.simps) (simp add: parseInt10_snoc)
    also have "\<dots> = 10 * (n div 10) + n mod 10"
      using 1 False by (simp add: digit_value)
    finally show ?thesis by simp
  qed
qed



section \<open>The classification sub-batcher\<close>

lemma batches_Nil [simp]: "batches [] = []"
  by (simp add: batches.simps)

lemma batches_drop:
  "i < length xs \<Longrightarrow>
   batches (drop i xs) =
     take ANTISEMITIC_BATCH_SIZE (drop i xs) # batches (drop (i + ANTISEMITIC_BATCH_SIZE) xs)"
  by (subst batches.simps) (simp add: add.commute)

lemma batches_drop_done: "\<not> i < length xs \<Longrightarrow> batches (drop i xs) = []"
  by simp

lemma concat_batches: "concat (batches xs) = xs"
  by (induction xs rule: batches.induct) (subst batches.simps, simp)

lemma ceil20_step: "0 < (n::nat) \<Longrightarrow> Suc ((n - 20 + 19) div 20) = (n + 19) div 20"
proof (cases "n < 20")
  case True
  assume "0 < n"
  then have "n + 19 = (n - 1) + 20" by simp
  then have "(n + 19) div 20 = (n - 1) div 20 + 1" by (simp only: div_add_self2)
  with True show ?thesis by simp
next
  case False
  then obtain m where "n = m + 20" by (metis add.commute le_Suc_ex not_less)
  then show ?thesis by simp
qed

lemma length_batches: "length (batches xs) = (length xs + 19) div 20"
proof (induction xs rule: batches.induct)
  case (1 xs)
  show ?case
  proof (cases "xs = []")
    case True
    then show ?thesis by simp
  next
    case False
    then have pos: "0 < length xs" by simp
    have ih: "length (batches (drop ANTISEMITIC_BATCH_SIZE xs)) =
               (length (drop ANTISEMITIC_BATCH_SIZE xs) + 19) div 20"
      using 1 False by blast
    have "length (batches xs) = Suc (length (batches (drop ANTISEMITIC_BATCH_SIZE xs)))"
      using False by (subst batches.simps) simp
    also have "\<dots> = Suc ((length xs - 20 + 19) div 20)"
      unfolding ih by (simp add: ANTISEMITIC_BATCH_SIZE_def)
    also have "\<dots> = (length xs + 19) div 20"
      using pos by (rule ceil20_step)
    finally show ?thesis .
  qed
qed

lemma batches_sizes: "b \<in> set (batches xs) \<Longrightarrow> b \<noteq> [] \<and> length b \<le> ANTISEMITIC_BATCH_SIZE"
proof (induction xs rule: batches.induct)
  case (1 xs)
  show ?case
  proof (cases "xs = []")
    case True
    with 1 show ?thesis by simp
  next
    case False
    with 1 show ?thesis
      by (subst (asm) (2) batches.simps) (auto simp: ANTISEMITIC_BATCH_SIZE_def)
  qed
qed

lemma ceil_div20: "nat \<lceil>(of_nat n :: rat) / 20\<rceil> = (n + 19) div 20"
proof -
  have "\<lceil>(of_nat n :: rat) / 20\<rceil> = \<lceil>(of_int (int n) :: rat) / of_int 20\<rceil>" by simp
  also have "\<dots> = - ((- int n) div 20)"
    unfolding ceiling_divide_eq_div by simp
  finally show ?thesis by (simp; linarith)
qed

lemma analyzeBatch_step:
  assumes "analyzeBatch env ps i totals w = (t1, w1)"
  shows "\<exists>out. requests w1 =
             requests w @ [(antisemiticPrompt (take ANTISEMITIC_BATCH_SIZE (drop i ps)), out)]
           \<and> snd t1 = snd totals + analyzedOf (take ANTISEMITIC_BATCH_SIZE (drop i ps), out)
           \<and> fst t1 = fst totals + flaggedOf out"
proof -
  obtain r e where c:
    "chat env (antisemiticPrompt (take ANTISEMITIC_BATCH_SIZE (drop i ps))) (ext w) = (r, e)"
    by (cases "chat env (antisemiticPrompt (take ANTISEMITIC_BATCH_SIZE (drop i ps))) (ext w)")
  show ?thesis
    using assms c
    by (intro exI [of _ r])
       (auto simp: analyzeBatch_def client_chat_def consoleAdd_def analyzedOf_def flaggedOf_def Let_def
             split: prod.splits sum.splits if_splits)
qed

lemma analyzeLoop_run:
  "analyzeLoop env ps i totals w = (totals', w') \<Longrightarrow>
   \<exists>outs. length outs = length (batches (drop i ps))
     \<and> requests w' = requests w @ zip (map antisemiticPrompt (batches (drop i ps))) outs
     \<and> snd totals' = snd totals + sum_list (map analyzedOf (zip (batches (drop i ps)) outs))
     \<and> fst totals' = fst totals + sum_list (map flaggedOf outs)"
proof (induction env ps i totals w arbitrary: totals' w' rule: analyzeLoop.induct)
  case (1 env ps i totals w)
  show ?case
  proof (cases "i < length ps")
    case False
    with "1.prems" show ?thesis
      by (simp add: analyzeLoop.simps)
  next
    case True
    obtain t1 w1 where b: "analyzeBatch env ps i totals w = (t1, w1)"
      by (cases "analyzeBatch env ps i totals w")
    with True "1.prems"
    have l: "analyzeLoop env ps (i + ANTISEMITIC_BATCH_SIZE) t1 w1 = (totals', w')"
      by (simp add: analyzeLoop.simps)
    from "1.IH" [OF True b [symmetric] l]
    obtain outs where o: "length outs = length (batches (drop (i + ANTISEMITIC_BATCH_SIZE) ps))"
        "requests w' = requests w1 @
           zip (map antisemiticPrompt (batches (drop (i + ANTISEMITIC_BATCH_SIZE) ps))) outs"
        "snd totals' = snd t1 +
           sum_list (map analyzedOf (zip (batches (drop (i + ANTISEMITIC_BATCH_SIZE) ps)) outs))"
        "fst totals' = fst t1 + sum_list (map flaggedOf outs)"
      by blast
    from analyzeBatch_step [OF b]
    obtain out where s:
        "requests w1 =
           requests w @ [(antisemiticPrompt (take ANTISEMITIC_BATCH_SIZE (drop i ps)), out)]"
        "snd t1 = snd totals + analyzedOf (take ANTISEMITIC_BATCH_SIZE (drop i ps), out)"
        "fst t1 = fst totals + flaggedOf out"
      by blast
    have "length (out # outs) = length (batches (drop i ps))"
      using o(1) by (simp add: batches_drop [OF True])
    moreover have "requests w' =
        requests w @ zip (map antisemiticPrompt (batches (drop i ps))) (out # outs)"
      using o(2) s(1) by (simp add: batches_drop [OF True])
    moreover have "snd totals' =
        snd totals + sum_list (map analyzedOf (zip (batches (drop i ps)) (out # outs)))"
      using o(3) s(2) by (simp add: batches_drop [OF True])
    moreover have "fst totals' = fst totals + sum_list (map flaggedOf (out # outs))"
      using o(4) s(3) by simp
    ultimately show ?thesis by blast
  qed
qed

lemma analyzedOf_le: "length outs = length chunks \<Longrightarrow>
  sum_list (map analyzedOf (zip chunks outs)) \<le> length (concat chunks)"
proof (induction chunks arbitrary: outs)
  case Nil
  then show ?case by simp
next
  case (Cons c chunks)
  then obtain out outs' where o: "outs = out # outs'" by (cases outs) auto
  with Cons have "sum_list (map analyzedOf (zip chunks outs')) \<le> length (concat chunks)"
    by simp
  moreover have "analyzedOf (c, out) \<le> length c"
    by (simp add: analyzedOf_def split: sum.splits)
  ultimately show ?case
    using o by simp
qed

lemma analyzedOf_all: "length outs = length chunks \<Longrightarrow> \<forall>out \<in> set outs. succeeded out \<Longrightarrow>
  sum_list (map analyzedOf (zip chunks outs)) = length (concat chunks)"
proof (induction chunks arbitrary: outs)
  case Nil
  then show ?case by simp
next
  case (Cons c chunks)
  then obtain out outs' where "outs = out # outs'" by (cases outs) auto
  with Cons show ?case
    by (auto simp: analyzedOf_def succeeded_def split: sum.splits)
qed

text \<open>
  C3. A run of the sub-batcher on \<open>N\<close> post texts cuts them, in order, into
  \<open>ceil (N / 20)\<close> non-empty chunks of at most 20 texts, and the completion calls it adds
  to the trace are exactly one per chunk, each with the prompt of its chunk. When every one
  of these calls succeeds, the analyzed count it returns is \<open>N\<close>.
\<close>

theorem subbatcher_chunks:
  assumes run: "analyzeAntisemiticContent env ps w = ((flagged, analyzed), w')"
  shows "\<exists>chunks outs.
     concat chunks = ps
     \<and> (\<forall>c \<in> set chunks. c \<noteq> [] \<and> length c \<le> ANTISEMITIC_BATCH_SIZE)
     \<and> length chunks = nat \<lceil>(of_nat (length ps) :: rat) / of_nat ANTISEMITIC_BATCH_SIZE\<rceil>
     \<and> length outs = length chunks
     \<and> requests w' = requests w @ zip (map antisemiticPrompt chunks) outs
     \<and> ((\<forall>out \<in> set outs. succeeded out) \<longrightarrow> analyzed = length ps)"
proof -
  from analyzeLoop_run [OF run [unfolded analyzeAntisemiticContent_def]]
  obtain outs where o: "length outs = length (batches ps)"
      "requests w' = requests w @ zip (map antisemiticPrompt (batches ps)) outs"
      "analyzed = sum_list (map analyzedOf (zip (batches ps) outs))"
    by auto
  have "(\<forall>out \<in> set outs. succeeded out) \<longrightarrow> analyzed = length ps"
    using analyzedOf_all [OF o(1)] o(3) by (simp add: concat_batches)
  moreover have "length (batches ps) =
      nat \<lceil>(of_nat (length ps) :: rat) / of_nat ANTISEMITIC_BATCH_SIZE\<rceil>"
    by (simp add: length_batches ceil_div20 ANTISEMITIC_BATCH_SIZE_def)
  ultimately show ?thesis
    using o(1,2) concat_batches [of ps] batches_sizes [of _ ps] by blast
qed

text \<open>
  Three texts and a service that answers \<open>2/3\<close>: one call, which succeeds, and an analyzed
  count of 3.
\<close>

theorem subbatcher_chunks_witness:
  "list_all succeeded (map snd (requests (snd (analyzeAntisemiticContent
        (stubEnv (\<lambda>rq. Inr (js ''2/3'')) (\<lambda>op'. Completes))
        [js ''a'', js ''b'', js ''c''] emptyWorld))))
   \<and> snd (fst (analyzeAntisemiticContent
        (stubEnv (\<lambda>rq. Inr (js ''2/3'')) (\<lambda>op'. Completes))
        [js ''a'', js ''b'', js ''c''] emptyWorld)) = 3"
proof -
  let ?run = "analyzeAntisemiticContent
        (stubEnv (\<lambda>rq. Inr (js ''2/3'')) (\<lambda>op'. Completes))
        [js ''a'', js ''b'', js ''c''] emptyWorld"
  have ev: "map snd (requests (snd ?run)) = [Inr (js ''2/3'')]"
    by code_simp
  have "?run = ((fst (fst ?run), snd (fst ?run)), snd ?run)"
    by simp
  from subbatcher_chunks [OF this]
  obtain chunks outs where o: "length outs = length chunks"
      "requests (snd ?run) = requests emptyWorld @ zip (map antisemiticPrompt chunks) outs"
      "(\<forall>out \<in> set outs. succeeded out) \<longrightarrow> snd (fst ?run) = length [js ''a'', js ''b'', js ''c'']"
    by blast
  from o(1,2) have "outs = map snd (requests (snd ?run))"
    by (simp add: emptyWorld_def)
  with ev have outs: "outs = [Inr (js ''2/3'')]"
    by simp
  with o(3) have "snd (fst ?run) = 3"
    by (simp add: succeeded_def)
  moreover have "list_all succeeded (map snd (requests (snd ?run)))"
    unfolding ev by (simp add: succeeded_def)
  ultimately show ?thesis by blast
qed

text \<open>
  C4. For the chunk that starts at index \<open>i\<close>: when the service answers and the total it
  reports differs from the size of the chunk, the chunk adds its actual size to the analyzed
  total, and what the console gets is one entry, a warning. When the call fails, the totals
  stay as they were and the loop goes on with the chunk at \<open>i + 20\<close>. Whatever the outcomes
  are, a run issues a call for every chunk of the thread.
\<close>

theorem chunk_isolation:
  "(chat env (antisemiticPrompt (take ANTISEMITIC_BATCH_SIZE (drop i ps))) (ext w) = (Inr response, e)
      \<and> snd (parseAntisemiticResponse response) \<noteq> length (take ANTISEMITIC_BATCH_SIZE (drop i ps))
    \<longrightarrow> analyzeBatch env ps i totals w =
          ((fst totals + fst (parseAntisemiticResponse response),
            snd totals + length (take ANTISEMITIC_BATCH_SIZE (drop i ps))),
           w\<lparr>ext := e,
             requests := requests w @
               [(antisemiticPrompt (take ANTISEMITIC_BATCH_SIZE (drop i ps)), Inr response)],
             console := console w @
               [WarnBatchSizeMismatch (length (take ANTISEMITIC_BATCH_SIZE (drop i ps)))
                  (snd (parseAntisemiticResponse response))]\<rparr>)
        \<and> levelOf (WarnBatchSizeMismatch (length (take ANTISEMITIC_BATCH_SIZE (drop i ps)))
                  (snd (parseAntisemiticResponse response))) = LevelWarn)
   \<and> (chat env (antisemiticPrompt (take ANTISEMITIC_BATCH_SIZE (drop i ps))) (ext w) = (Inl error, e)
        \<and> i < length ps
    \<longrightarrow> fst (analyzeBatch env ps i totals w) = totals
        \<and> analyzeLoop env ps i totals w =
            analyzeLoop env ps (i + ANTISEMITIC_BATCH_SIZE) totals
              (w\<lparr>ext := e,
                 requests := requests w @
                   [(antisemiticPrompt (take ANTISEMITIC_BATCH_SIZE (drop i ps)), Inl error)],
                 console := console w @
                   [ErrorAnalyzingBatch (i div ANTISEMITIC_BATCH_SIZE + 1) error]\<rparr>))
   \<and> length (requests (snd (analyzeAntisemiticContent env ps w))) =
       length (requests w) + nat \<lceil>(of_nat (length ps) :: rat) / of_nat ANTISEMITIC_BATCH_SIZE\<rceil>"
proof (intro conjI impI)
  assume a: "chat env (antisemiticPrompt (take ANTISEMITIC_BATCH_SIZE (drop i ps))) (ext w) = (Inr response, e)
      \<and> snd (parseAntisemiticResponse response) \<noteq> length (take ANTISEMITIC_BATCH_SIZE (drop i ps))"
  then show "analyzeBatch env ps i totals w =
          ((fst totals + fst (parseAntisemiticResponse response),
            snd totals + length (take ANTISEMITIC_BATCH_SIZE (drop i ps))),
           w\<lparr>ext := e,
             requests := requests w @
               [(antisemiticPrompt (take ANTISEMITIC_BATCH_SIZE (drop i ps)), Inr response)],
             console := console w @
               [WarnBatchSizeMismatch (length (take ANTISEMITIC_BATCH_SIZE (drop i ps)))
                  (snd (parseAntisemiticResponse response))]\<rparr>)"
    by (auto simp: analyzeBatch_def client_chat_def consoleAdd_def Let_def split: prod.splits)
  show "levelOf (WarnBatchSizeMismatch (length (take ANTISEMITIC_BATCH_SIZE (drop i ps)))
                  (snd (parseAntisemiticResponse response))) = LevelWarn"
    by simp
next
  assume a: "chat env (antisemiticPrompt (take ANTISEMITIC_BATCH_SIZE (drop i ps))) (ext w) = (Inl error, e)
        \<and> i < length ps"
  then have b: "analyzeBatch env ps i totals w =
      (totals, w\<lparr>ext := e,
                 requests := requests w @
                   [(antisemiticPrompt (take ANTISEMITIC_BATCH_SIZE (drop i ps)), Inl error)],
                 console := console w @
                   [ErrorAnalyzingBatch (i div ANTISEMITIC_BATCH_SIZE + 1) error]\<rparr>)"
    by (simp add: analyzeBatch_def client_chat_def consoleAdd_def Let_def)
  then show "fst (analyzeBatch env ps i totals w) = totals"
    by simp
  from a b show "analyzeLoop env ps i totals w =
            analyzeLoop env ps (i + ANTISEMITIC_BATCH_SIZE) totals
              (w\<lparr>ext := e,
                 requests := requests w @
                   [(antisemiticPrompt (take ANTISEMITIC_BATCH_SIZE (drop i ps)), Inl error)],
                 console := console w @
                   [ErrorAnalyzingBatch (i div ANTISEMITIC_BATCH_SIZE + 1) error]\<rparr>)"
    by (subst analyzeLoop.simps) simp
next
  obtain t' w' where run: "analyzeLoop env ps 0 (0, 0) w = (t', w')"
    by (cases "analyzeLoop env ps 0 (0, 0) w")
  from analyzeLoop_run [OF run]
  obtain outs where o: "length outs = length (batches ps)"
      "requests w' = requests w @ zip (map antisemiticPrompt (batches ps)) outs"
    by auto
  have "length (batches ps) =
      nat \<lceil>(of_nat (length ps) :: rat) / of_nat ANTISEMITIC_BATCH_SIZE\<rceil>"
    by (simp add: length_batches ceil_div20 ANTISEMITIC_BATCH_SIZE_def)
  with o run show "length (requests (snd (analyzeAntisemiticContent env ps w))) =
       length (requests w) + nat \<lceil>(of_nat (length ps) :: rat) / of_nat ANTISEMITIC_BATCH_SIZE\<rceil>"
    by (simp add: analyzeAntisemiticContent_def)
qed

text \<open>
  A one-text chunk answered with \<open>2/3\<close> counts as one analyzed text; the same chunk with a
  failing call leaves the totals at zero.
\<close>

theorem chunk_isolation_witness:
  "fst (analyzeBatch (stubEnv (\<lambda>rq. Inr (js ''2/3'')) (\<lambda>c. Completes))
          [js ''a''] 0 (0, 0) emptyWorld) = (2, 1)
   \<and> fst (analyzeBatch (stubEnv (\<lambda>rq. Inl (JsError (js ''timeout''))) (\<lambda>c. Completes))
          [js ''a''] 0 (0, 0) emptyWorld) = (0, 0)"
proof -
  have p: "parseAntisemiticResponse (js ''2/3'') = (2, 3)"
    by code_simp
  have "chat (stubEnv (\<lambda>rq. Inr (js ''2/3'')) (\<lambda>c. Completes))
          (antisemiticPrompt (take ANTISEMITIC_BATCH_SIZE (drop 0 [js ''a''])))
          (ext emptyWorld) = (Inr (js ''2/3''), ())
        \<and> snd (parseAntisemiticResponse (js ''2/3''))
            \<noteq> length (take ANTISEMITIC_BATCH_SIZE (drop 0 [js ''a'']))"
    by (simp add: stubEnv_def p ANTISEMITIC_BATCH_SIZE_def)
  with chunk_isolation [where env = "stubEnv (\<lambda>rq. Inr (js ''2/3'')) (\<lambda>c. Completes)"
      and ps = "[js ''a'']" and i = 0 and w = emptyWorld and response = "js ''2/3''"
      and e = "()" and totals = "(0, 0)"]
  have "fst (analyzeBatch (stubEnv (\<lambda>rq. Inr (js ''2/3'')) (\<lambda>c. Completes))
          [js ''a''] 0 (0, 0) emptyWorld) = (2, 1)"
    by (simp add: p ANTISEMITIC_BATCH_SIZE_def)
  moreover
  have "chat (stubEnv (\<lambda>rq. Inl (JsError (js ''timeout''))) (\<lambda>c. Completes))
          (antisemiticPrompt (take ANTISEMITIC_BATCH_SIZE (drop 0 [js ''a''])))
          (ext emptyWorld) = (Inl (JsError (js ''timeout'')), ())
        \<and> 0 < length [js ''a'']"
    by (simp add: stubEnv_def)
  with chunk_isolation [where env = "stubEnv (\<lambda>rq. Inl (JsError (js ''timeout''))) (\<lambda>c. Completes)"
      and ps = "[js ''a'']" and i = 0 and w = emptyWorld and error = "JsError (js ''timeout'')"
      and e = "()" and totals = "(0, 0)"]
  have "fst (analyzeBatch (stubEnv (\<lambda>rq. Inl (JsError (js ''timeout''))) (\<lambda>c. Completes))
          [js ''a''] 0 (0, 0) emptyWorld) = (0, 0)"
    by blast
  ultimately show ?thesis by blast
qed

text \<open>
  C10. The analyzed total of a run is the sum of the actual sizes of the chunks whose call
  succeeded, whatever total the service reported, so it is at most the number of texts. The
  flagged total is the sum of the flagged counts the service reported for these chunks, and
  nothing bounds it by the analyzed total: a single text answered with \<open>5/1\<close> gives 5
  flagged out of 1 analyzed.
\<close>

theorem subbatcher_totals:
  "(analyzeAntisemiticContent env ps w = ((flagged, analyzed), w') \<longrightarrow>
      (\<exists>chunks outs.
         concat chunks = ps \<and> length outs = length chunks
         \<and> requests w' = requests w @ zip (map antisemiticPrompt chunks) outs
         \<and> analyzed = sum_list (map analyzedOf (zip chunks outs))
         \<and> flagged = sum_list (map flaggedOf outs))
      \<and> analyzed \<le> length ps)
   \<and> (\<exists>reply.
         snd (fst (analyzeAntisemiticContent (stubEnv reply (\<lambda>c. Completes)) [js ''a''] emptyWorld))
         < fst (fst (analyzeAntisemiticContent (stubEnv reply (\<lambda>c. Completes)) [js ''a''] emptyWorld)))"
proof (intro conjI impI)
  assume run: "analyzeAntisemiticContent env ps w = ((flagged, analyzed), w')"
  from analyzeLoop_run [OF run [unfolded analyzeAntisemiticContent_def]]
  obtain outs where o: "length outs = length (batches ps)"
      "requests w' = requests w @ zip (map antisemiticPrompt (batches ps)) outs"
      "analyzed = sum_list (map analyzedOf (zip (batches ps) outs))"
      "flagged = sum_list (map flaggedOf outs)"
    by auto
  from o show "\<exists>chunks outs.
         concat chunks = ps \<and> length outs = length chunks
         \<and> requests w' = requests w @ zip (map antisemiticPrompt chunks) outs
         \<and> analyzed = sum_list (map analyzedOf (zip chunks outs))
         \<and> flagged = sum_list (map flaggedOf outs)"
    by (intro exI [of _ "batches ps"] exI [of _ outs]) (simp add: concat_batches)
  show "analyzed \<le> length ps"
    using analyzedOf_le [OF o(1)] o(3) by (simp add: concat_batches)
next
  have "snd (fst (analyzeAntisemiticContent (stubEnv (\<lambda>rq. Inr (js ''5/1'')) (\<lambda>c. Completes))
               [js ''a''] emptyWorld))
        < fst (fst (analyzeAntisemiticContent (stubEnv (\<lambda>rq. Inr (js ''5/1'')) (\<lambda>c. Completes))
               [js ''a''] emptyWorld))"
    by code_simp
  then show "\<exists>reply.
         snd (fst (analyzeAntisemiticContent (stubEnv reply (\<lambda>c. Completes)) [js ''a''] emptyWorld))
         < fst (fst (analyzeAntisemiticContent (stubEnv reply (\<lambda>c. Completes)) [js ''a''] emptyWorld))"
    by (rule exI [of _ "\<lambda>rq. Inr (js ''5/1'')"])
qed

text \<open>Three texts answered with \<open>2/3\<close>: 2 flagged, 3 analyzed.\<close>

theorem subbatcher_totals_witness:
  "snd (fst (analyzeAntisemiticContent (stubEnv (\<lambda>rq. Inr (js ''2/3'')) (\<lambda>c. Completes))
        [js ''a'', js ''b'', js ''c''] emptyWorld)) \<le> 3
   \<and> fst (analyzeAntisemiticContent (stubEnv (\<lambda>rq. Inr (js ''2/3'')) (\<lambda>c. Completes))
        [js ''a'', js ''b'', js ''c''] emptyWorld) = (2, 3)"
proof -
  let ?run = "analyzeAntisemiticContent (stubEnv (\<lambda>rq. Inr (js ''2/3'')) (\<lambda>c. Completes))
        [js ''a'', js ''b'', js ''c''] emptyWorld"
  have "?run = ((fst (fst ?run), snd (fst ?run)), snd ?run)"
    by simp
  with subbatcher_totals [of _ "[js ''a'', js ''b'', js ''c'']" _ "fst (fst ?run)" "snd (fst ?run)" "snd ?run"]
  have "snd (fst ?run) \<le> length [js ''a'', js ''b'', js ''c'']"
    by blast
  moreover have "fst ?run = (2, 3)"
    by code_simp
  ultimately show ?thesis by simp
qed

section \<open>The thread analyzer\<close>







section \<open>The sampler\<close>






section \<open>The output commit\<close>

lemma tmp_suffix [simp]: "js ''.tmp'' \<noteq> []"
  by (simp add: js_def)

lemmas fs_defs = fs_mkdir_def fs_writeFile_def fs_rename_def fs_unlink_def fs_readFile_def
  fsCall_def Date_now_def consoleAdd_def existsSync_def

lemma saveOutput_try_Inr:
  assumes "saveOutput_try env gen (outputFile gen @ js ''.tmp'') batch w = (Inr u, w1)"
  shows "\<exists>calls time. fsCalls w1 = fsCalls w @ calls
     \<and> map fst calls = [Mkdir (dirname (outputFile gen)),
                         WriteFile (outputFile gen @ js ''.tmp''),
                         Rename (outputFile gen @ js ''.tmp'') (outputFile gen)]
     \<and> list_all (\<lambda>c. snd c = Completes) calls
     \<and> files w1 (outputFile gen) = Some (ArticlesJson batch time)
     \<and> files w1 (outputFile gen @ js ''.tmp'') = None"
  using assms
  by (auto simp: saveOutput_try_def fs_defs Let_def
           split: prod.splits sum.splits fs_outcome.splits option.splits)

lemma saveOutput_try_Inl:
  assumes "saveOutput_try env gen (outputFile gen @ js ''.tmp'') batch w = (Inl error, w1)"
  shows "\<exists>calls. fsCalls w1 = fsCalls w @ calls
     \<and> calls \<noteq> []
     \<and> prefix (map fst calls) [Mkdir (dirname (outputFile gen)),
                         WriteFile (outputFile gen @ js ''.tmp''),
                         Rename (outputFile gen @ js ''.tmp'') (outputFile gen)]
     \<and> list_all (\<lambda>c. snd c = Completes) (butlast calls)
     \<and> snd (last calls) \<in> {Fails error, FailsMidway error}
     \<and> files w1 (outputFile gen) = files w (outputFile gen)
     \<and> console w1 = console w"
  using assms
  by (auto simp: saveOutput_try_def fs_defs Let_def
           split: prod.splits sum.splits fs_outcome.splits option.splits)


lemma saveOutput_Inr:
  assumes "saveOutput env gen batch w = (Inr u, w')"
  shows "\<exists>calls time. fsCalls w' = fsCalls w @ calls
     \<and> map fst calls = [Mkdir (dirname (outputFile gen)),
                         WriteFile (outputFile gen @ js ''.tmp''),
                         Rename (outputFile gen @ js ''.tmp'') (outputFile gen)]
     \<and> list_all (\<lambda>c. snd c = Completes) calls
     \<and> files w' (outputFile gen) = Some (ArticlesJson batch time)
     \<and> files w' (outputFile gen @ js ''.tmp'') = None"
proof -
  from assms have "saveOutput_try env gen (outputFile gen @ js ''.tmp'') batch w = (Inr u, w')"
    by (auto simp: saveOutput_def Let_def split: prod.splits sum.splits)
  then show ?thesis by (rule saveOutput_try_Inr)
qed

lemma saveOutput_Inl:
  assumes "saveOutput env gen batch w = (Inl error, w')"
  shows "\<exists>calls cleanup. fsCalls w' = fsCalls w @ calls @ cleanup
     \<and> calls \<noteq> []
     \<and> prefix (map fst calls) [Mkdir (dirname (outputFile gen)),
                         WriteFile (outputFile gen @ js ''.tmp''),
                         Rename (outputFile gen @ js ''.tmp'') (outputFile gen)]
     \<and> list_all (\<lambda>c. snd c = Completes) (butlast calls)
     \<and> snd (last calls) \<in> {Fails error, FailsMidway error}
     \<and> files w' (outputFile gen) = files w (outputFile gen)
     \<and> (cleanup = [] \<and> files w' (outputFile gen @ js ''.tmp'') = None
        \<or> cleanup = [(Unlink (outputFile gen @ js ''.tmp''), Completes)]
            \<and> files w' (outputFile gen @ js ''.tmp'') = None
        \<or> (\<exists>e. cleanup = [(Unlink (outputFile gen @ js ''.tmp''), Fails e)]
               \<or> cleanup = [(Unlink (outputFile gen @ js ''.tmp''), FailsMidway e)]))"
proof -
  obtain w1 where t: "saveOutput_try env gen (outputFile gen @ js ''.tmp'') batch w = (Inl error, w1)"
    and w': "w' = (if existsSync (outputFile gen @ js ''.tmp'')
                        (consoleAdd [ErrorSaveArticlesFailed error] w1)
                   then snd (fs_unlink env (outputFile gen @ js ''.tmp'')
                               (consoleAdd [ErrorSaveArticlesFailed error] w1))
                   else consoleAdd [ErrorSaveArticlesFailed error] w1)"
    using assms by (auto simp: saveOutput_def Let_def split: prod.splits sum.splits)
  from saveOutput_try_Inl [OF t] obtain calls where c: "fsCalls w1 = fsCalls w @ calls"
      "calls \<noteq> []"
      "prefix (map fst calls) [Mkdir (dirname (outputFile gen)),
                         WriteFile (outputFile gen @ js ''.tmp''),
                         Rename (outputFile gen @ js ''.tmp'') (outputFile gen)]"
      "list_all (\<lambda>c. snd c = Completes) (butlast calls)"
      "snd (last calls) \<in> {Fails error, FailsMidway error}"
      "files w1 (outputFile gen) = files w (outputFile gen)"
    by blast
  have "\<exists>cleanup. fsCalls w' = fsCalls w1 @ cleanup
     \<and> files w' (outputFile gen) = files w1 (outputFile gen)
     \<and> (cleanup = [] \<and> files w' (outputFile gen @ js ''.tmp'') = None
        \<or> cleanup = [(Unlink (outputFile gen @ js ''.tmp''), Completes)]
            \<and> files w' (outputFile gen @ js ''.tmp'') = None
        \<or> (\<exists>e. cleanup = [(Unlink (outputFile gen @ js ''.tmp''), Fails e)]
               \<or> cleanup = [(Unlink (outputFile gen @ js ''.tmp''), FailsMidway e)]))"
    unfolding w'
    by (auto simp: fs_defs Let_def split: prod.splits fs_outcome.splits option.splits)
  with c show ?thesis
    by (metis append_assoc)
qed

lemma generateArticles_steps:
  assumes "loadProgress env gen w = (existing, w1)"
    and "processThreads env gen onProgress (remainingThreads existing threads)
           (initialProgress existing) (resumed existing w1) = (acc, w3)"
    and "Date_now env (snd (fs_unlink env (progressFile gen) w3)) = (time, w5)"
  shows "generateArticles env gen threads onProgress w =
          (case saveOutput env gen (batchOf acc time) w5 of
             (Inl error, w6) \<Rightarrow> (Inl error, w6)
           | (Inr u, w6) \<Rightarrow> (Inr (batchOf acc time), w6))"
  using assms
  by (simp add: generateArticles_def initialProgress_def remainingThreads_def resumed_def
        batchOf_def Let_def split: prod.splits sum.splits)

lemma paths [simp]:
  "progressFile defaultGenerator \<noteq> outputFile defaultGenerator"
  "progressFile defaultGenerator \<noteq> outputFile defaultGenerator @ js ''.tmp''"
  "outputFile defaultGenerator \<noteq> progressFile defaultGenerator"
  "outputFile defaultGenerator @ js ''.tmp'' \<noteq> progressFile defaultGenerator"
  by (simp_all add: defaultGenerator_def ArticleGenerator_def js_def)

lemmas eval_defs = generateArticles_def saveOutput_def saveOutput_try_def loadProgress_def
  saveProgress_def fs_defs stubEnv_def emptyWorld_def checkpointWorld_def renameFails_def
  tempLocked_def callOnProgress_def Let_def

text \<open>
  C1, as the code has it. A commit that succeeds has made three calls, all completed: the
  directory, the write of the whole batch to \<open>articles.json.tmp\<close>, and the rename over
  \<open>articles.json\<close>; the temporary file is gone. A commit that fails has failed at one of
  these calls, with the error it returns; \<open>articles.json\<close> is as it was; and the temporary
  file is absent unless the unlink that cleans it up failed as well, which \<open>saveOutput\<close>
  ignores. The result of \<open>generateArticles\<close> is the batch when its commit succeeds and the
  error of the commit when it fails.
\<close>

theorem saveOutput_atomic:
  "(saveOutput env gen batch w = (Inr u, w') \<longrightarrow>
      (\<exists>calls time. fsCalls w' = fsCalls w @ calls
         \<and> map fst calls = [Mkdir (dirname (outputFile gen)),
                             WriteFile (outputFile gen @ js ''.tmp''),
                             Rename (outputFile gen @ js ''.tmp'') (outputFile gen)]
         \<and> list_all (\<lambda>c. snd c = Completes) calls
         \<and> files w' (outputFile gen) = Some (ArticlesJson batch time)
         \<and> files w' (outputFile gen @ js ''.tmp'') = None))
   \<and> (saveOutput env gen batch w = (Inl error, w') \<longrightarrow>
      (\<exists>calls cleanup. fsCalls w' = fsCalls w @ calls @ cleanup
         \<and> calls \<noteq> []
         \<and> prefix (map fst calls) [Mkdir (dirname (outputFile gen)),
                             WriteFile (outputFile gen @ js ''.tmp''),
                             Rename (outputFile gen @ js ''.tmp'') (outputFile gen)]
         \<and> list_all (\<lambda>c. snd c = Completes) (butlast calls)
         \<and> snd (last calls) \<in> {Fails error, FailsMidway error}
         \<and> files w' (outputFile gen) = files w (outputFile gen)
         \<and> (cleanup = [] \<and> files w' (outputFile gen @ js ''.tmp'') = None
            \<or> cleanup = [(Unlink (outputFile gen @ js ''.tmp''), Completes)]
                \<and> files w' (outputFile gen @ js ''.tmp'') = None
            \<or> (\<exists>e. cleanup = [(Unlink (outputFile gen @ js ''.tmp''), Fails e)]
                   \<or> cleanup = [(Unlink (outputFile gen @ js ''.tmp''), FailsMidway e)]))))
   \<and> (\<exists>batch0 w0. generateArticles env gen threads onProgress w =
          (case saveOutput env gen batch0 w0 of
             (Inl error, w1) \<Rightarrow> (Inl error, w1)
           | (Inr u, w1) \<Rightarrow> (Inr batch0, w1)))"
proof (intro conjI impI)
  show "\<exists>calls time. fsCalls w' = fsCalls w @ calls
         \<and> map fst calls = [Mkdir (dirname (outputFile gen)),
                             WriteFile (outputFile gen @ js ''.tmp''),
                             Rename (outputFile gen @ js ''.tmp'') (outputFile gen)]
         \<and> list_all (\<lambda>c. snd c = Completes) calls
         \<and> files w' (outputFile gen) = Some (ArticlesJson batch time)
         \<and> files w' (outputFile gen @ js ''.tmp'') = None"
    if "saveOutput env gen batch w = (Inr u, w')"
    using that by (rule saveOutput_Inr)
  show "\<exists>calls cleanup. fsCalls w' = fsCalls w @ calls @ cleanup
         \<and> calls \<noteq> []
         \<and> prefix (map fst calls) [Mkdir (dirname (outputFile gen)),
                             WriteFile (outputFile gen @ js ''.tmp''),
                             Rename (outputFile gen @ js ''.tmp'') (outputFile gen)]
         \<and> list_all (\<lambda>c. snd c = Completes) (butlast calls)
         \<and> snd (last calls) \<in> {Fails error, FailsMidway error}
         \<and> files w' (outputFile gen) = files w (outputFile gen)
         \<and> (cleanup = [] \<and> files w' (outputFile gen @ js ''.tmp'') = None
            \<or> cleanup = [(Unlink (outputFile gen @ js ''.tmp''), Completes)]
                \<and> files w' (outputFile gen @ js ''.tmp'') = None
            \<or> (\<exists>e. cleanup = [(Unlink (outputFile gen @ js ''.tmp''), Fails e)]
                   \<or> cleanup = [(Unlink (outputFile gen @ js ''.tmp''), FailsMidway e)]))"
    if "saveOutput env gen batch w = (Inl error, w')"
    using that by (rule saveOutput_Inl)
  show "\<exists>batch0 w0. generateArticles env gen threads onProgress w =
          (case saveOutput env gen batch0 w0 of
             (Inl error, w1) \<Rightarrow> (Inl error, w1)
           | (Inr u, w1) \<Rightarrow> (Inr batch0, w1))"
  proof -
    obtain existing w1 where l: "loadProgress env gen w = (existing, w1)"
      by (cases "loadProgress env gen w")
    obtain acc w3 where p: "processThreads env gen onProgress (remainingThreads existing threads)
           (initialProgress existing) (resumed existing w1) = (acc, w3)"
      by (cases "processThreads env gen onProgress (remainingThreads existing threads)
           (initialProgress existing) (resumed existing w1)")
    obtain time w5 where d: "Date_now env (snd (fs_unlink env (progressFile gen) w3)) = (time, w5)"
      by (cases "Date_now env (snd (fs_unlink env (progressFile gen) w3))")
    from generateArticles_steps [OF l p d] show ?thesis
      by blast
  qed
qed

text \<open>A commit that succeeds, and one whose rename fails.\<close>

theorem saveOutput_atomic_witness:
  "fst (saveOutput (stubEnv labelledReply (\<lambda>c. Completes)) defaultGenerator emptyBatch emptyWorld)
     = Inr ()
   \<and> files (snd (saveOutput (stubEnv labelledReply (\<lambda>c. Completes)) defaultGenerator emptyBatch
                    emptyWorld)) (outputFile defaultGenerator @ js ''.tmp'') = None
   \<and> fst (saveOutput (stubEnv labelledReply renameFails) defaultGenerator emptyBatch emptyWorld)
     = Inl (JsError (js ''EPERM''))
   \<and> files (snd (saveOutput (stubEnv labelledReply renameFails) defaultGenerator emptyBatch
                    emptyWorld)) (outputFile defaultGenerator)
     = files emptyWorld (outputFile defaultGenerator)"
proof -
  let ?ok = "saveOutput (stubEnv labelledReply (\<lambda>c. Completes)) defaultGenerator emptyBatch emptyWorld"
  let ?ko = "saveOutput (stubEnv labelledReply renameFails) defaultGenerator emptyBatch emptyWorld"
  have ok: "fst ?ok = Inr ()"
    by (simp add: eval_defs)
  then have "?ok = (Inr (), snd ?ok)"
    by (simp add: prod_eq_iff)
  with saveOutput_atomic [where env = "stubEnv labelledReply (\<lambda>c. Completes)"
      and gen = defaultGenerator and batch = emptyBatch and w = emptyWorld and u = "()"
      and w' = "snd ?ok"]
  have 1: "files (snd ?ok) (outputFile defaultGenerator @ js ''.tmp'') = None"
    by blast
  have ko: "fst ?ko = Inl (JsError (js ''EPERM''))"
    by (simp add: eval_defs)
  then have "?ko = (Inl (JsError (js ''EPERM'')), snd ?ko)"
    by (simp add: prod_eq_iff)
  with saveOutput_atomic [where env = "stubEnv labelledReply renameFails"
      and gen = defaultGenerator and batch = emptyBatch and w = emptyWorld
      and error = "JsError (js ''EPERM'')" and w' = "snd ?ko"]
  have 2: "files (snd ?ko) (outputFile defaultGenerator) = files emptyWorld (outputFile defaultGenerator)"
    by blast
  from ok 1 ko 2 show ?thesis by blast
qed

text \<open>
  C1 as stated fails: when the rename and the unlink both fail, the commit fails and the
  temporary file stays.
\<close>

theorem saveOutput_atomic_counterexample:
  "fst (saveOutput (stubEnv labelledReply tempLocked) defaultGenerator emptyBatch emptyWorld)
     = Inl (JsError (js ''EPERM''))
   \<and> files (snd (saveOutput (stubEnv labelledReply tempLocked) defaultGenerator emptyBatch
                    emptyWorld)) (outputFile defaultGenerator @ js ''.tmp'')
     = Some (ArticlesJson emptyBatch 0)"
  by (simp add: eval_defs)

section \<open>The checkpoint\<close>

text \<open>
  C8. The job deletes the checkpoint before it commits the output. With a checkpoint on disk
  and a rename that fails, the job fails, and the checkpoint is gone with no
  \<open>articles.json\<close> written.
\<close>

theorem checkpoint_deleted_before_commit:
  "files checkpointWorld (progressFile defaultGenerator) = Some (ProgressJson [smallRecord] 0)
   \<and> fst (generateArticles (stubEnv labelledReply renameFails) defaultGenerator [smallThread] None
            checkpointWorld) = Inl (JsError (js ''EPERM''))
   \<and> fsCalls (snd (generateArticles (stubEnv labelledReply renameFails) defaultGenerator
                    [smallThread] None checkpointWorld)) =
       [(ReadFile (progressFile defaultGenerator), Completes),
        (Unlink (progressFile defaultGenerator), Completes),
        (Mkdir (dirname (outputFile defaultGenerator)), Completes),
        (WriteFile (outputFile defaultGenerator @ js ''.tmp''), Completes),
        (Rename (outputFile defaultGenerator @ js ''.tmp'') (outputFile defaultGenerator),
           Fails (JsError (js ''EPERM''))),
        (Unlink (outputFile defaultGenerator @ js ''.tmp''), Completes)]
   \<and> files (snd (generateArticles (stubEnv labelledReply renameFails) defaultGenerator
                    [smallThread] None checkpointWorld)) (progressFile defaultGenerator) = None
   \<and> files (snd (generateArticles (stubEnv labelledReply renameFails) defaultGenerator
                    [smallThread] None checkpointWorld)) (outputFile defaultGenerator) = None"
  by (simp add: eval_defs smallRecord_def smallThread_def)

section \<open>The statistics of the batch\<close>

lemma foldl_guarded:
  "foldl (\<lambda>sum a. if analyzedComments (antisemiticStats a) > 0
                    then jsAdd sum (percentage (antisemiticStats a)) else sum) s records =
   foldl jsAdd s (map (\<lambda>a. percentage (antisemiticStats a))
                    (filter (\<lambda>a. analyzedComments (antisemiticStats a) > 0) records))"
  by (induction records arbitrary: s) simp_all

lemma totalOf_snoc:
  "totalOf (records @ [a]) =
     (if analyzedComments (antisemiticStats a) > 0
      then jsAdd (totalOf records) (percentage (antisemiticStats a)) else totalOf records)"
  by (simp add: totalOf_def)

lemma processThreads_total:
  "processThreads env gen onProgress ts acc w = (acc', w') \<Longrightarrow>
   snd (snd acc) = totalOf (fst acc) \<Longrightarrow> snd (snd acc') = totalOf (fst acc')"
proof (induction ts arbitrary: acc w)
  case Nil
  then show ?case by simp
next
  case (Cons t ts)
  obtain r w1 where a: "analyzeThread env gen t w = (r, w1)"
    by (cases "analyzeThread env gen t w")
  show ?case
  proof (cases r)
    case (Inl error)
    with a Cons.prems(1)
    have "processThreads env gen onProgress ts acc
            (consoleAdd [ErrorThreadFailed (no t) error] w1) = (acc', w')"
      by simp
    from Cons.IH [OF this Cons.prems(2)] show ?thesis .
  next
    case (Inr analysis)
    let ?acc = "(fst acc @ [analysis],
                 fst (snd acc) + analyzedPosts (metadata analysis),
                 if analyzedComments (antisemiticStats analysis) > 0
                 then jsAdd (snd (snd acc)) (percentage (antisemiticStats analysis))
                 else snd (snd acc))"
    from Inr a Cons.prems(1)
    have "processThreads env gen onProgress ts ?acc
            (callOnProgress onProgress t (saveProgress env gen (fst acc @ [analysis]) w1))
          = (acc', w')"
      by (simp add: Let_def)
    moreover have "snd (snd ?acc) = totalOf (fst ?acc)"
      using Cons.prems(2) by (simp add: totalOf_snoc)
    ultimately show ?thesis
      by (rule Cons.IH)
  qed
qed

lemma initialProgress_total: "snd (snd (initialProgress existing)) = totalOf (fst (initialProgress existing))"
  by (simp add: initialProgress_def totalOf_def foldl_guarded)

lemma batchOf_average:
  "snd (snd acc) = totalOf (fst acc) \<Longrightarrow>
   averageAntisemiticPercentage (batchStats (batchOf acc time)) = meanPercentage (fst acc)"
  by (simp add: batchOf_def meanPercentage_def totalOf_def Let_def)

text \<open>
  C6. The average of the batch a job returns is the mean of the percentages of its records
  with \<open>analyzedComments > 0\<close>; records with no analyzed comment take no part in it, and
  it is 0 when no record has an analyzed comment.
\<close>

theorem average_is_mean:
  assumes "fst (generateArticles env gen threads onProgress w) = Inr batch"
  shows "averageAntisemiticPercentage (batchStats batch) = meanPercentage (articles batch)"
proof -
  obtain existing w1 where l: "loadProgress env gen w = (existing, w1)"
    by (cases "loadProgress env gen w")
  obtain acc w3 where p: "processThreads env gen onProgress (remainingThreads existing threads)
         (initialProgress existing) (resumed existing w1) = (acc, w3)"
    by (cases "processThreads env gen onProgress (remainingThreads existing threads)
         (initialProgress existing) (resumed existing w1)")
  obtain time w5 where d: "Date_now env (snd (fs_unlink env (progressFile gen) w3)) = (time, w5)"
    by (cases "Date_now env (snd (fs_unlink env (progressFile gen) w3))")
  from generateArticles_steps [OF l p d] assms have b: "batch = batchOf acc time"
    by (auto split: prod.splits sum.splits)
  have "snd (snd acc) = totalOf (fst acc)"
    using processThreads_total [OF p initialProgress_total] .
  then have "averageAntisemiticPercentage (batchStats (batchOf acc time)) = meanPercentage (fst acc)"
    by (rule batchOf_average)
  then show ?thesis
    by (simp add: b batchOf_def)
qed

text \<open>
  A batch of a record at 100 percent and a record with no analyzed comment: the average is
  100, not 50.
\<close>

theorem average_is_mean_witness:
  "fst (generateArticles (stubEnv labelledReply (\<lambda>c. Completes)) defaultGenerator [] None
          twoRecordWorld) =
     Inr \<lparr> articles = [smallRecord, textlessRecord\<lparr>threadId := 8\<rparr>],
           batchStats = \<lparr> totalThreads = 2, totalAnalyzedPosts = 2,
                          averageAntisemiticPercentage = Fin 100, batchGeneratedAt = 0 \<rparr> \<rparr>
   \<and> meanPercentage [smallRecord, textlessRecord\<lparr>threadId := 8\<rparr>] = Fin 100"
proof -
  let ?b = "\<lparr> articles = [smallRecord, textlessRecord\<lparr>threadId := 8\<rparr>],
           batchStats = \<lparr> totalThreads = 2, totalAnalyzedPosts = 2,
                          averageAntisemiticPercentage = Fin 100, batchGeneratedAt = 0 \<rparr> \<rparr>"
  have run: "fst (generateArticles (stubEnv labelledReply (\<lambda>c. Completes)) defaultGenerator [] None
          twoRecordWorld) = Inr ?b"
    by (simp add: eval_defs twoRecordWorld_def smallRecord_def textlessRecord_def num_def)
  from average_is_mean [OF run]
  have "meanPercentage [smallRecord, textlessRecord\<lparr>threadId := 8\<rparr>] = Fin 100"
    by simp
  with run show ?thesis by blast
qed

section \<open>Resume\<close>































end
